theory Spec2Isabelle
  imports Main "HOL-Library.AList" "HOL-Library.Sublist"
begin

section \<open>Python values and exceptions\<close>

text \<open>
  The registry, the records built by the decorators and the instance configuration are
  plain Python data: \<open>None\<close>, booleans, integers, strings, lists and dictionaries with
  string keys. A dictionary is an association list in insertion order, read with
  \<open>map_of\<close> (first binding of a key) and written with \<open>AList.update\<close> (replace in place,
  else append), which is what a Python \<open>dict\<close> does.
\<close>

datatype pyval =
    PNone
  | PBool bool
  | PInt int
  | PStr string
  | PList "pyval list"
  | PDict "(string \<times> pyval) list"

text \<open>
  Exceptions as values. \<open>ValueError\<close> carries its message, \<open>KeyError\<close> the missing key.
  \<open>OtherException\<close> is any other instance of a subclass of \<open>Exception\<close>, \<open>NonException\<close> an
  instance of \<open>BaseException\<close> outside \<open>Exception\<close> (such as \<open>KeyboardInterrupt\<close>); each
  carries a label telling instances apart.
\<close>

datatype error =
    ValueError string
  | KeyError string
  | TypeError
  | AttributeError
  | ImportError
  | OtherException string
  | NonException string


text \<open>Truth value of an object, as \<open>if x\<close> and \<open>x or y\<close> test it.\<close>

fun truthy :: "pyval \<Rightarrow> bool" where
  "truthy PNone = False"
| "truthy (PBool b) = b"
| "truthy (PInt i) = (i \<noteq> 0)"
| "truthy (PStr s) = (s \<noteq> [])"
| "truthy (PList xs) = (xs \<noteq> [])"
| "truthy (PDict kv) = (kv \<noteq> [])"

text \<open>\<open>x.get(k, d)\<close>: only a dictionary has the method.\<close>

fun py_get :: "pyval \<Rightarrow> string \<Rightarrow> pyval \<Rightarrow> error + pyval" where
  "py_get (PDict kv) k d = Inr (case map_of kv k of Some v \<Rightarrow> v | None \<Rightarrow> d)"
| "py_get x k d = Inl AttributeError"

text \<open>\<open>x[k]\<close> with a string \<open>k\<close>: a missing key raises \<open>KeyError\<close>; a list or a string
  refuses a string index and the other values are not subscriptable (\<open>TypeError\<close>).\<close>

fun py_getitem :: "pyval \<Rightarrow> string \<Rightarrow> error + pyval" where
  "py_getitem (PDict kv) k = (case map_of kv k of Some v \<Rightarrow> Inr v | None \<Rightarrow> Inl (KeyError k))"
| "py_getitem x k = Inl TypeError"

text \<open>\<open>k in x\<close> with a string \<open>k\<close>: key of a dictionary, element of a list, substring
  of a string; the other values are not iterable.\<close>

fun py_contains :: "pyval \<Rightarrow> string \<Rightarrow> error + bool" where
  "py_contains (PDict kv) k = Inr (map_of kv k \<noteq> None)"
| "py_contains (PList xs) k = Inr (PStr k \<in> set xs)"
| "py_contains (PStr s) k = Inr (sublist k s)"
| "py_contains x k = Inl TypeError"

text \<open>\<open>x[k] = v\<close> with a string \<open>k\<close>: only a dictionary accepts it.\<close>

fun py_setitem :: "pyval \<Rightarrow> string \<Rightarrow> pyval \<Rightarrow> error + pyval" where
  "py_setitem (PDict kv) k v = Inr (PDict (AList.update k v kv))"
| "py_setitem x k v = Inl TypeError"

section \<open>toolkit.py: the type mapping\<close>

definition get_json_type_for_py_type :: "string \<Rightarrow> string" where
  "get_json_type_for_py_type arg =
     (if arg \<in> set [''int'', ''float'', ''complex'', ''Decimal''] then ''number''
      else if arg \<in> set [''str'', ''string''] then ''string''
      else if arg \<in> set [''bool'', ''boolean''] then ''boolean''
      else if arg \<in> set [''NoneType'', ''None''] then ''null''
      else if arg \<in> set [''list'', ''tuple'', ''set'', ''frozenset''] then ''array''
      else if arg \<in> set [''dict'', ''mapping''] then ''object''
      else ''unknown'')"

section \<open>toolkit.py: the Toolkit class\<close>

text \<open>An instance holds one attribute, \<open>configuration\<close>.\<close>

record toolkit =
  configuration :: pyval

definition default_configuration :: pyval where
  "default_configuration =
     PDict [(''config'', PDict []), (''functions'', PDict []), (''enable'', PList [])]"

definition Toolkit_init :: "pyval \<Rightarrow> toolkit" where
  "Toolkit_init cfg =
     \<lparr>configuration = (if truthy cfg then cfg else default_configuration)\<rparr>"

text \<open>The class variable \<open>__tools\<close>: container name to container record.\<close>

type_synonym registry = "(string \<times> pyval) list"

text \<open>\<open>Toolkit.tool(_cls, _func)\<close>.\<close>

definition Toolkit_tool :: "registry \<Rightarrow> string \<Rightarrow> string option \<Rightarrow> error + pyval" where
  "Toolkit_tool tools cls func =
     (case func of
        None \<Rightarrow> py_getitem (PDict tools) cls
      | Some f \<Rightarrow>
          (case py_getitem (PDict tools) cls of
             Inl e \<Rightarrow> Inl e
           | Inr d \<Rightarrow>
               (case py_getitem d ''functions'' of
                  Inl e \<Rightarrow> Inl e
                | Inr fs \<Rightarrow> py_getitem fs f)))"

text \<open>
  \<open>Toolkit.register(name, kwargs, tool_cls)\<close>. The registry is passed in and returned.
  \<open>d["functions"][name] = kwargs\<close> mutates the container's record in place; here the
  changed \<open>functions\<close> dictionary is written back into the record and the record into
  the registry.
\<close>

definition Toolkit_register ::
  "registry \<Rightarrow> string \<Rightarrow> pyval \<Rightarrow> string option \<Rightarrow> error + registry" where
  "Toolkit_register tools name kwargs tool_cls =
     (case tool_cls of
        Some tc \<Rightarrow>
          (case map_of tools tc of
             None \<Rightarrow> Inl (ValueError (''Tool '' @ tc @ '' is not registered''))
           | Some d \<Rightarrow>
               (case py_getitem d ''functions'' of
                  Inl e \<Rightarrow> Inl e
                | Inr fs \<Rightarrow>
                    (case py_contains fs name of
                       Inl e \<Rightarrow> Inl e
                     | Inr True \<Rightarrow>
                         Inl (ValueError (''Tool '' @ name @ '' is already registered in '' @ tc))
                     | Inr False \<Rightarrow>
                         (case py_setitem fs name kwargs of
                            Inl e \<Rightarrow> Inl e
                          | Inr fs' \<Rightarrow>
                              (case py_setitem d ''functions'' fs' of
                                 Inl e \<Rightarrow> Inl e
                               | Inr d' \<Rightarrow> Inr (AList.update tc d' tools))))))
      | None \<Rightarrow> Inr (AList.update name kwargs tools))"

section \<open>toolkit.py: the decorator tool\<close>

text \<open>What the decorator reads of the class it decorates: \<open>__name__\<close> and \<open>__doc__\<close>.\<close>

record pyclass =
  cls_name :: string
  cls_doc :: pyval

text \<open>
  \<open>tool(schema, title, description, icon, category)(cls)\<close>. \<open>schema\<close> is \<open>None\<close> or
  \<open>Some s\<close> for a model class whose \<open>model_json_schema()\<close> returns \<open>s\<close>. The decorator
  returns the class unchanged; its effect is the registry it leaves.
\<close>

definition tool ::
  "pyval option \<Rightarrow> pyval \<Rightarrow> pyval \<Rightarrow> pyval \<Rightarrow> pyval \<Rightarrow> pyclass \<Rightarrow> registry \<Rightarrow> error + registry" where
  "tool schema title description icon category cls tools =
     (let kwargs = PDict
            [(''id'', PStr (cls_name cls)),
             (''title'', title),
             (''description'', if truthy description then description else cls_doc cls),
             (''icon'', icon),
             (''category'', category),
             (''functions'', PDict []),
             (''schema'', case schema of Some s \<Rightarrow> s | None \<Rightarrow> PNone)]
      in Toolkit_register tools (cls_name cls) kwargs None)"

section \<open>toolkit.py: the decorator tool_func\<close>

text \<open>
  A formal parameter as \<open>inspect.signature\<close> gives it. \<open>param_default = None\<close> is
  \<open>inspect.Parameter.empty\<close>. An annotation is absent, an object with a \<open>__name__\<close> (a
  class), or an object without one (a string annotation, a union type), on which
  \<open>.__name__\<close> raises \<open>AttributeError\<close>.
\<close>

datatype annotation = NoAnnotation | Named string | Unnamed

record param =
  param_default :: "pyval option"
  param_annotation :: annotation

text \<open>
  What the decorator reads of the function it decorates: \<open>__name__\<close>, \<open>__qualname__\<close>,
  the parameters of its signature in declaration order, and the \<open>params\<close> of its parsed
  docstring, each a pair of \<open>arg_name\<close> and \<open>description\<close>.
\<close>

record pyfunc =
  func_name :: string
  func_qualname :: string
  func_parameters :: "(string \<times> param) list"
  func_doc_params :: "(string \<times> pyval) list"

text \<open>\<open>next((p.description for p in parsed.params if p.arg_name == name), "")\<close>.\<close>

definition doc_description :: "(string \<times> pyval) list \<Rightarrow> string \<Rightarrow> pyval" where
  "doc_description params name =
     (case find (\<lambda>p. fst p = name) params of Some p \<Rightarrow> snd p | None \<Rightarrow> PStr [])"

text \<open>\<open>param.annotation.__name__ if param.annotation is not inspect.Parameter.empty else "any"\<close>.\<close>

fun annotation_name :: "annotation \<Rightarrow> error + string" where
  "annotation_name NoAnnotation = Inr ''any''"
| "annotation_name (Named n) = Inr n"
| "annotation_name Unnamed = Inl AttributeError"

text \<open>The \<open>for\<close> loop of the decorator, which builds the list \<open>args\<close>.\<close>

fun tool_func_args :: "(string \<times> pyval) list \<Rightarrow> (string \<times> param) list \<Rightarrow> error + pyval list" where
  "tool_func_args parsed [] = Inr []"
| "tool_func_args parsed ((name, p) # rest) =
     (if name = ''self'' \<or> name = ''_config'' then tool_func_args parsed rest
      else
        (case annotation_name (param_annotation p) of
           Inl e \<Rightarrow> Inl e
         | Inr tn \<Rightarrow>
             (case tool_func_args parsed rest of
                Inl e \<Rightarrow> Inl e
              | Inr args \<Rightarrow>
                  Inr (PDict
                        [(''name'', PStr name),
                         (''description'', doc_description parsed name),
                         (''optional'', PBool (param_default p \<noteq> None)),
                         (''default'', case param_default p of Some v \<Rightarrow> v | None \<Rightarrow> PNone),
                         (''type'', PStr (get_json_type_for_py_type tn))]
                       # args))))"

text \<open>\<open>func.__qualname__.split(".")[0]\<close>.\<close>

definition qualname_head :: "string \<Rightarrow> string" where
  "qualname_head q = takeWhile (\<lambda>c. c \<noteq> CHR ''.'') q"

text \<open>
  \<open>tool_func(schema, title, desc)(func)\<close> at decoration time: the registry it leaves, or
  the exception it raises. The list \<open>args\<close> is computed first (and may raise), then
  \<open>kwargs\<close> is built without it and registered under the container named by the
  qualified name.
\<close>

definition tool_func ::
  "pyval option \<Rightarrow> pyval \<Rightarrow> pyval \<Rightarrow> pyfunc \<Rightarrow> registry \<Rightarrow> error + registry" where
  "tool_func schema title desc func tools =
     (case tool_func_args (func_doc_params func) (func_parameters func) of
        Inl e \<Rightarrow> Inl e
      | Inr args \<Rightarrow>
          (let kwargs = PDict
                 [(''id'', PStr (func_name func)),
                  (''title'', title),
                  (''description'', desc),
                  (''parameters'', PDict []),
                  (''returns'', PDict [(''type'', PStr '',''), (''description'', PStr [])]),
                  (''schema'', case schema of Some s \<Rightarrow> s | None \<Rightarrow> PNone),
                  (''enabled'', PBool True),
                  (''llm_tool'', PDict [])];
               tool_cls = qualname_head (func_qualname func)
           in Toolkit_register tools (func_name func) kwargs (Some tool_cls)))"

text \<open>
  The wrapper the decorator returns. A Python callable is its outcome on a receiver,
  positional arguments and keyword arguments. \<open>injected_config\<close> is the right-hand side
  of the assignment to \<open>kwargs["_config"]\<close>.
\<close>

type_synonym pycallable = "toolkit \<Rightarrow> pyval list \<Rightarrow> (string \<times> pyval) list \<Rightarrow> error + pyval"

definition injected_config :: "toolkit \<Rightarrow> error + pyval" where
  "injected_config self =
     (case py_get (configuration self) ''functions'' (PDict [(''config'', PStr [])]) of
        Inl e \<Rightarrow> Inl e
      | Inr fs \<Rightarrow> py_get fs ''config'' (PDict []))"

definition wrapper :: "pycallable \<Rightarrow> pycallable" where
  "wrapper func self args kwargs =
     (case injected_config self of
        Inl e \<Rightarrow> Inl e
      | Inr c \<Rightarrow> func self args (AList.update ''_config'' c kwargs))"


section \<open>package.py: install_package\<close>


section \<open>serpapi.py: the example plugin\<close>







section \<open>Registration order\<close>

text \<open>
  C1. The claim asks that an operation decorated before its container is held pending
  and attached later. On the code, \<open>tool_func\<close> registers at once under the container
  named by the qualified name, and \<open>Toolkit.register\<close> raises \<open>ValueError\<close> when that
  container is not in the registry: decorating \<open>op2\<close> of \<open>D\<close> on the empty registry
  raises.
\<close>

theorem tool_func_before_tool_raises:
  "tool_func None (PStr ''Op 2'') PNone
     \<lparr>func_name = ''op2'', func_qualname = ''D.op2'',
      func_parameters =
        [(''self'', \<lparr>param_default = None, param_annotation = NoAnnotation\<rparr>),
         (''query'', \<lparr>param_default = None, param_annotation = Named ''str''\<rparr>),
         (''_config'', \<lparr>param_default = None, param_annotation = Named ''dict''\<rparr>)],
      func_doc_params = []\<rparr>
     []
   = Inl (ValueError ''Tool D is not registered'')"
  by (simp add: tool_func_def Toolkit_register_def qualname_head_def Let_def)

section \<open>The stored parameters\<close>

text \<open>
  C2. The claim asks that the stored record of an operation holds, under \<open>parameters\<close>,
  a descriptor for each declared parameter. On the code the descriptors are computed
  into \<open>args\<close> and the record is built with an empty \<open>parameters\<close> dictionary: for the
  container \<open>C\<close> and its operation \<open>op(self, query, _config)\<close> with a documented \<open>query\<close>,
  the descriptor of \<open>query\<close> is computed, the record found under \<open>("C", "op")\<close> has
  \<open>parameters = {}\<close>, and reading \<open>parameters["query"]\<close> raises \<open>KeyError\<close>.
\<close>

theorem tool_func_stores_no_parameters:
  "tool_func_args [(''query'', PStr ''The search query string.'')]
     [(''self'', \<lparr>param_default = None, param_annotation = NoAnnotation\<rparr>),
      (''query'', \<lparr>param_default = None, param_annotation = Named ''str''\<rparr>),
      (''_config'', \<lparr>param_default = None, param_annotation = Named ''dict''\<rparr>)]
   = Inr [PDict [(''name'', PStr ''query''), (''description'', PStr ''The search query string.''),
                 (''optional'', PBool False), (''default'', PNone), (''type'', PStr ''string'')]] \<and>
   (case tool None PNone PNone PNone PNone \<lparr>cls_name = ''C'', cls_doc = PNone\<rparr> [] of
      Inl e \<Rightarrow> Inl e
    | Inr tools1 \<Rightarrow>
        (case tool_func None PNone PNone
                \<lparr>func_name = ''op'', func_qualname = ''C.op'',
                 func_parameters =
                   [(''self'', \<lparr>param_default = None, param_annotation = NoAnnotation\<rparr>),
                    (''query'', \<lparr>param_default = None, param_annotation = Named ''str''\<rparr>),
                    (''_config'', \<lparr>param_default = None, param_annotation = Named ''dict''\<rparr>)],
                 func_doc_params = [(''query'', PStr ''The search query string.'')]\<rparr>
                tools1 of
           Inl e \<Rightarrow> Inl e
         | Inr tools2 \<Rightarrow>
             (case Toolkit_tool tools2 ''C'' (Some ''op'') of
                Inl e \<Rightarrow> Inl e
              | Inr entry \<Rightarrow> py_getitem entry ''parameters'')))
   = Inr (PDict []) \<and>
   py_getitem (PDict []) ''query'' = Inl (KeyError ''query'')"
  by (simp add: tool_def tool_func_def Toolkit_register_def Toolkit_tool_def qualname_head_def
      Let_def doc_description_def get_json_type_for_py_type_def)

section \<open>The injected configuration\<close>

text \<open>
  The value of the lookup on an instance whose configuration is a mapping. With a
  \<open>functions\<close> mapping it is the entry of that mapping under \<open>config\<close>, or an empty
  mapping. With no \<open>functions\<close> entry the default of the first \<open>get\<close> is
  \<open>{"config": ""}\<close>, and the value is the empty string, though the operations declare
  \<open>_config\<close> a \<open>dict\<close>.
\<close>

lemma injected_config_without_functions:
  "configuration self = PDict conf \<Longrightarrow> map_of conf ''functions'' = None \<Longrightarrow>
   injected_config self = Inr (PStr [])"
  by (simp add: injected_config_def)

lemma injected_config_with_functions:
  "configuration self = PDict conf \<Longrightarrow> map_of conf ''functions'' = Some (PDict fs) \<Longrightarrow>
   injected_config self = Inr (case map_of fs ''config'' of Some v \<Rightarrow> v | None \<Rightarrow> PDict [])"
  by (simp add: injected_config_def)

text \<open>
  C3, as amended. For every instance whose configuration is a mapping whose \<open>functions\<close>
  entry, when there is one, is a mapping, the wrapper's lookup does not fail, also when
  there is no \<open>functions\<close> entry at all, and the call is the original operation's with
  the looked-up value as \<open>_config\<close>. When there is a \<open>functions\<close> mapping that value is its
  entry under the fixed key \<open>config\<close>, or an empty mapping when it has none; the name of
  the operation plays no part.
\<close>

theorem wrapper_injects_fixed_key:
  assumes "configuration self = PDict conf"
    and "map_of conf ''functions'' = None \<or> (\<exists>fs. map_of conf ''functions'' = Some (PDict fs))"
  shows "\<exists>c. injected_config self = Inr c \<and>
           wrapper func self args kwargs = func self args (AList.update ''_config'' c kwargs) \<and>
           (\<forall>fs. map_of conf ''functions'' = Some (PDict fs) \<longrightarrow>
              c = (case map_of fs ''config'' of Some v \<Rightarrow> v | None \<Rightarrow> PDict []))"
proof -
  from assms(2) show ?thesis
  proof
    assume n: "map_of conf ''functions'' = None"
    have c: "injected_config self = Inr (PStr [])"
      by (rule injected_config_without_functions[OF assms(1) n])
    then have "wrapper func self args kwargs
        = func self args (AList.update ''_config'' (PStr []) kwargs)"
      by (simp add: wrapper_def)
    with c n show ?thesis by simp
  next
    assume "\<exists>fs. map_of conf ''functions'' = Some (PDict fs)"
    then obtain fs where f: "map_of conf ''functions'' = Some (PDict fs)" ..
    have c: "injected_config self
        = Inr (case map_of fs ''config'' of Some v \<Rightarrow> v | None \<Rightarrow> PDict [])"
      by (rule injected_config_with_functions[OF assms(1) f])
    then have "wrapper func self args kwargs
        = func self args (AList.update ''_config''
            (case map_of fs ''config'' of Some v \<Rightarrow> v | None \<Rightarrow> PDict []) kwargs)"
      by (simp add: wrapper_def)
    with c f show ?thesis by simp
  qed
qed

text \<open>
  The operation body of the first two instances returns the \<open>_config\<close> it receives; the
  third instance has no \<open>functions\<close> entry and its body returns its arguments.
\<close>

theorem wrapper_injects_fixed_key_witness:
  "wrapper (\<lambda>self args kwargs. py_getitem (PDict kwargs) ''_config'')
     (Toolkit_init PNone) [PStr ''hello''] [] = Inr (PDict []) \<and>
   wrapper (\<lambda>self args kwargs. py_getitem (PDict kwargs) ''_config'')
     \<lparr>configuration = PDict [(''functions'', PDict [(''config'', PDict [(''num_results'', PInt 5)])])]\<rparr>
     [PStr ''hello''] [] = Inr (PDict [(''num_results'', PInt 5)]) \<and>
   wrapper (\<lambda>self args kwargs. Inr (PList args))
     (Toolkit_init (PDict [(''api_key'', PStr ''k'')])) [PStr ''hello''] []
     = Inr (PList [PStr ''hello''])"
proof -
  let ?probe = "\<lambda>(self :: toolkit) (args :: pyval list) kwargs. py_getitem (PDict kwargs) ''_config''"
  have a1: "configuration (Toolkit_init PNone)
     = PDict [(''config'', PDict []), (''functions'', PDict []), (''enable'', PList [])]"
    by (simp add: Toolkit_init_def default_configuration_def)
  have b1: "map_of [(''config'', PDict []), (''functions'', PDict []), (''enable'', PList [])]
       ''functions'' = None \<or>
     (\<exists>fs. map_of [(''config'', PDict []), (''functions'', PDict []), (''enable'', PList [])]
       ''functions'' = Some (PDict fs))"
    by simp
  from wrapper_injects_fixed_key[OF a1 b1, of ?probe "[PStr ''hello'']" "[]"]
  have 1: "wrapper ?probe (Toolkit_init PNone) [PStr ''hello''] [] = Inr (PDict [])"
    by auto
  let ?s2 = "\<lparr>configuration =
      PDict [(''functions'', PDict [(''config'', PDict [(''num_results'', PInt 5)])])]\<rparr>"
  have a2: "configuration ?s2
     = PDict [(''functions'', PDict [(''config'', PDict [(''num_results'', PInt 5)])])]"
    by simp
  have b2: "map_of [(''functions'', PDict [(''config'', PDict [(''num_results'', PInt 5)])])]
       ''functions'' = None \<or>
     (\<exists>fs. map_of [(''functions'', PDict [(''config'', PDict [(''num_results'', PInt 5)])])]
       ''functions'' = Some (PDict fs))"
    by simp
  from wrapper_injects_fixed_key[OF a2 b2, of ?probe "[PStr ''hello'']" "[]"]
  have 2: "wrapper ?probe ?s2 [PStr ''hello''] [] = Inr (PDict [(''num_results'', PInt 5)])"
    by auto
  have a3: "configuration (Toolkit_init (PDict [(''api_key'', PStr ''k'')]))
     = PDict [(''api_key'', PStr ''k'')]"
    by (simp add: Toolkit_init_def)
  have b3: "map_of [(''api_key'', PStr ''k'')] ''functions'' = None \<or>
     (\<exists>fs. map_of [(''api_key'', PStr ''k'')] ''functions'' = Some (PDict fs))"
    by simp
  from wrapper_injects_fixed_key[OF a3 b3, of "\<lambda>self args kwargs. Inr (PList args)"
      "[PStr ''hello'']" "[]"]
  have 3: "wrapper (\<lambda>self args kwargs. Inr (PList args))
     (Toolkit_init (PDict [(''api_key'', PStr ''k'')])) [PStr ''hello''] []
     = Inr (PList [PStr ''hello''])"
    by auto
  from 1 2 3 show ?thesis by simp
qed

text \<open>
  The claim as stated fails. With no \<open>functions\<close> entry for \<open>op\<close> the operation receives
  the non-empty entry stored under \<open>config\<close>; an entry stored under \<open>op\<close> is not what it
  receives; with no \<open>functions\<close> entry at all it receives the empty string; and with a
  \<open>functions\<close> entry that is not a mapping the lookup raises.
\<close>

theorem wrapper_lookup_by_name_counterexample:
  "map_of [(''config'', PDict [(''num_results'', PInt 5)])] ''op'' = None \<and>
   wrapper (\<lambda>self args kwargs. py_getitem (PDict kwargs) ''_config'')
     \<lparr>configuration = PDict [(''functions'', PDict [(''config'', PDict [(''num_results'', PInt 5)])])]\<rparr>
     [PStr ''hello''] []
     = Inr (PDict [(''num_results'', PInt 5)]) \<and>
   wrapper (\<lambda>self args kwargs. py_getitem (PDict kwargs) ''_config'')
     \<lparr>configuration = PDict [(''functions'', PDict [(''op'', PDict [(''num_results'', PInt 5)])])]\<rparr>
     [PStr ''hello''] []
     = Inr (PDict []) \<and>
   wrapper (\<lambda>self args kwargs. py_getitem (PDict kwargs) ''_config'')
     (Toolkit_init (PDict [(''api_key'', PStr ''k'')])) [PStr ''hello''] []
     = Inr (PStr []) \<and>
   wrapper (\<lambda>self args kwargs. py_getitem (PDict kwargs) ''_config'')
     (Toolkit_init (PDict [(''functions'', PNone)])) [PStr ''hello''] []
     = Inl AttributeError"
  by (simp add: wrapper_def injected_config_def Toolkit_init_def)

section \<open>The wrapper passes the call through\<close>




section \<open>Duplicate registration\<close>

text \<open>
  C5. When the container is in the registry and the operation name is already a key of
  its \<open>functions\<close>, \<open>Toolkit.register\<close> of that name under that container raises the
  \<open>ValueError\<close> that says it is already registered, whatever record is offered; and
  \<open>tool_func\<close>, which calls it with no handler, raises the same error to its caller.
\<close>

theorem register_duplicate_rejected:
  assumes "map_of tools tc = Some (PDict d)"
    and "map_of d ''functions'' = Some (PDict fs)"
    and "map_of fs name = Some old"
  shows "Toolkit_register tools name kwargs (Some tc)
           = Inl (ValueError (''Tool '' @ name @ '' is already registered in '' @ tc)) \<and>
         (\<forall>schema title desc func args.
            tool_func_args (func_doc_params func) (func_parameters func) = Inr args \<and>
            func_name func = name \<and> qualname_head (func_qualname func) = tc
            \<longrightarrow> tool_func schema title desc func tools
                  = Inl (ValueError (''Tool '' @ name @ '' is already registered in '' @ tc)))"
proof -
  have r: "Toolkit_register tools name kw (Some tc)
           = Inl (ValueError (''Tool '' @ name @ '' is already registered in '' @ tc))" for kw
    by (simp add: Toolkit_register_def assms)
  show ?thesis
  proof (intro conjI allI impI)
    show "Toolkit_register tools name kwargs (Some tc)
           = Inl (ValueError (''Tool '' @ name @ '' is already registered in '' @ tc))"
      by (rule r)
  next
    fix schema :: "pyval option" and title desc :: pyval and func :: pyfunc
      and args :: "pyval list"
    assume a: "tool_func_args (func_doc_params func) (func_parameters func) = Inr args \<and>
            func_name func = name \<and> qualname_head (func_qualname func) = tc"
    then show "tool_func schema title desc func tools
                  = Inl (ValueError (''Tool '' @ name @ '' is already registered in '' @ tc))"
      by (simp add: tool_func_def Let_def r)
  qed
qed

theorem register_duplicate_rejected_witness:
  "Toolkit_register
     [(''C'', PDict [(''id'', PStr ''C''),
                     (''functions'', PDict [(''op'', PDict [(''id'', PStr ''op'')])])])]
     ''op'' (PDict [(''id'', PStr ''op'')]) (Some ''C'')
   = Inl (ValueError ''Tool op is already registered in C'')"
proof -
  have a: "map_of [(''C'', PDict [(''id'', PStr ''C''),
                     (''functions'', PDict [(''op'', PDict [(''id'', PStr ''op'')])])])] ''C''
      = Some (PDict [(''id'', PStr ''C''),
                     (''functions'', PDict [(''op'', PDict [(''id'', PStr ''op'')])])])"
    by simp
  have b: "map_of [(''id'', PStr ''C''),
                   (''functions'', PDict [(''op'', PDict [(''id'', PStr ''op'')])])] ''functions''
      = Some (PDict [(''op'', PDict [(''id'', PStr ''op'')])])"
    by simp
  have c: "map_of [(''op'', PDict [(''id'', PStr ''op'')])] ''op'' = Some (PDict [(''id'', PStr ''op'')])"
    by simp
  from register_duplicate_rejected[OF a b c, of "PDict [(''id'', PStr ''op'')]"]
  show ?thesis by simp
qed

section \<open>The parameter descriptors\<close>







section \<open>The type categories\<close>

text \<open>
  C7. The mapping from a declared type name to a type category sends \<open>int\<close> and \<open>float\<close> to
  \<open>number\<close>, \<open>str\<close> to \<open>string\<close>, \<open>bool\<close> to \<open>boolean\<close>, \<open>list\<close>, \<open>tuple\<close> and \<open>set\<close> to
  \<open>array\<close>, \<open>dict\<close> to \<open>object\<close>, and every name it does not recognise to \<open>unknown\<close>. It is
  a total function into the seven categories, so no name makes it raise.
\<close>

theorem json_type_mapping:
  "get_json_type_for_py_type ''int'' = ''number'' \<and>
   get_json_type_for_py_type ''float'' = ''number'' \<and>
   get_json_type_for_py_type ''str'' = ''string'' \<and>
   get_json_type_for_py_type ''bool'' = ''boolean'' \<and>
   get_json_type_for_py_type ''list'' = ''array'' \<and>
   get_json_type_for_py_type ''tuple'' = ''array'' \<and>
   get_json_type_for_py_type ''set'' = ''array'' \<and>
   get_json_type_for_py_type ''dict'' = ''object'' \<and>
   (\<forall>arg. arg \<notin> set [''int'', ''float'', ''complex'', ''Decimal'', ''str'', ''string'',
                      ''bool'', ''boolean'', ''NoneType'', ''None'', ''list'', ''tuple'',
                      ''set'', ''frozenset'', ''dict'', ''mapping'']
      \<longrightarrow> get_json_type_for_py_type arg = ''unknown'') \<and>
   (\<forall>arg. get_json_type_for_py_type arg \<in>
      set [''number'', ''string'', ''boolean'', ''null'', ''array'', ''object'', ''unknown''])"
  by (simp add: get_json_type_for_py_type_def)

theorem json_type_mapping_witness:
  "get_json_type_for_py_type ''any'' = ''unknown'' \<and>
   get_json_type_for_py_type ''SearchConfig'' = ''unknown''"
proof -
  have a: "''any'' \<notin> set [''int'', ''float'', ''complex'', ''Decimal'', ''str'', ''string'',
                      ''bool'', ''boolean'', ''NoneType'', ''None'', ''list'', ''tuple'',
                      ''set'', ''frozenset'', ''dict'', ''mapping'']" by simp
  have b: "''SearchConfig'' \<notin> set [''int'', ''float'', ''complex'', ''Decimal'', ''str'',
                      ''string'', ''bool'', ''boolean'', ''NoneType'', ''None'', ''list'',
                      ''tuple'', ''set'', ''frozenset'', ''dict'', ''mapping'']" by simp
  from json_type_mapping a b show ?thesis by blast
qed

section \<open>The example plugin\<close>




section \<open>Constructing a Toolkit\<close>

text \<open>
  C10. Constructing a Toolkit with \<open>None\<close>, with an empty mapping, or with any other
  falsy argument sets the configuration to the default structure with the keys
  \<open>config\<close>, \<open>functions\<close> and \<open>enable\<close>; a non-empty mapping is stored as given.
\<close>

theorem Toolkit_init_configuration:
  "configuration (Toolkit_init PNone)
     = PDict [(''config'', PDict []), (''functions'', PDict []), (''enable'', PList [])] \<and>
   configuration (Toolkit_init (PDict []))
     = PDict [(''config'', PDict []), (''functions'', PDict []), (''enable'', PList [])] \<and>
   (\<forall>cfg. \<not> truthy cfg \<longrightarrow> configuration (Toolkit_init cfg)
     = PDict [(''config'', PDict []), (''functions'', PDict []), (''enable'', PList [])]) \<and>
   (\<forall>kv. kv \<noteq> [] \<longrightarrow> configuration (Toolkit_init (PDict kv)) = PDict kv)"
  by (simp add: Toolkit_init_def default_configuration_def)

theorem Toolkit_init_configuration_witness:
  "configuration (Toolkit_init (PDict [(''api_key'', PStr ''k'')]))
     = PDict [(''api_key'', PStr ''k'')] \<and>
   configuration (Toolkit_init (PStr []))
     = PDict [(''config'', PDict []), (''functions'', PDict []), (''enable'', PList [])]"
proof -
  have a: "[(''api_key'', PStr ''k'')] \<noteq> []" by simp
  have b: "\<not> truthy (PStr [])" by simp
  from Toolkit_init_configuration a b show ?thesis by blast
qed

end
